theory Spec2Isabelle
  imports Complex_Main
begin

section \<open>JavaScript values used by the server\<close>

text \<open>
  The server is \<^verbatim>\<open>server/index.js\<close>. Its numbers are JavaScript Numbers. They are
  modelled as exact reals extended by \<open>NaN\<close> and the two infinities: rounding to
  binary64, overflow and the sign of zero are not modelled. A value that may be
  \<^verbatim>\<open>null\<close> or \<^verbatim>\<open>undefined\<close> is an \<open>option\<close>.
\<close>

datatype jsnum = Num real | NaN | PosInf | NegInf

definition isNaN :: "jsnum \<Rightarrow> bool" where
  "isNaN x = (x = NaN)"

definition infOfSign :: "real \<Rightarrow> jsnum" where
  "infOfSign s = (if s = 0 then NaN else if 0 < s then PosInf else NegInf)"

fun signOf :: "jsnum \<Rightarrow> real" where
  "signOf (Num a) = sgn a"
| "signOf PosInf = 1"
| "signOf NegInf = - 1"
| "signOf NaN = 0"

text \<open>The operator \<^verbatim>\<open>*\<close> on Numbers.\<close>

fun js_mul :: "jsnum \<Rightarrow> jsnum \<Rightarrow> jsnum" where
  "js_mul NaN y = NaN"
| "js_mul x NaN = NaN"
| "js_mul (Num a) (Num b) = Num (a * b)"
| "js_mul x y = infOfSign (signOf x * signOf y)"

text \<open>\<^verbatim>\<open>10 ** d\<close> for an integer \<open>d\<close>.\<close>

definition pow10 :: "int \<Rightarrow> real" where
  "pow10 d = (if 0 \<le> d then 10 ^ nat d else 1 / 10 ^ nat (- d))"

text \<open>
  Truthiness of a string, a number and a boolean that may be absent. A falsy number is 0
  or absent, so \<^verbatim>\<open>x || 0\<close> and \<^verbatim>\<open>x ? Number(x) : 0\<close> are \<open>x\<close> when it is present
  and 0 when it is absent.
\<close>

definition truthyStr :: "string option \<Rightarrow> bool" where
  "truthyStr v = (case v of None \<Rightarrow> False | Some s \<Rightarrow> s \<noteq> [])"

definition truthyNum :: "real option \<Rightarrow> bool" where
  "truthyNum v = (case v of None \<Rightarrow> False | Some x \<Rightarrow> x \<noteq> 0)"

definition truthyBool :: "bool option \<Rightarrow> bool" where
  "truthyBool v = (case v of None \<Rightarrow> False | Some b \<Rightarrow> b)"

text \<open>\<^verbatim>\<open>v || d\<close> on strings.\<close>

definition orStr :: "string option \<Rightarrow> string \<Rightarrow> string" where
  "orStr v d = (case v of None \<Rightarrow> d | Some s \<Rightarrow> if s = [] then d else s)"

subsection \<open>\<^verbatim>\<open>BigInt(string)\<close> and \<^verbatim>\<open>parseFloat\<close>\<close>

text \<open>
  \<^verbatim>\<open>BigInt\<close> of a string trims white space, reads the empty string as zero, a
  \<^verbatim>\<open>0x\<close>, \<^verbatim>\<open>0o\<close> or \<^verbatim>\<open>0b\<close> literal without sign, or a decimal literal with an
  optional sign, and throws a SyntaxError on anything else (\<open>None\<close>). Strings are byte
  lists here, so only the ASCII white space is trimmed.
\<close>

definition isWhiteSpace :: "char \<Rightarrow> bool" where
  "isWhiteSpace c = (c \<in> {CHR '' '', CHR 0x09, CHR 0x0A, CHR 0x0B, CHR 0x0C, CHR 0x0D})"

definition trim :: "string \<Rightarrow> string" where
  "trim s = rev (dropWhile isWhiteSpace (rev (dropWhile isWhiteSpace s)))"

definition digitValue :: "char \<Rightarrow> int option" where
  "digitValue c =
     (let n = (of_char c :: int) in
      if 48 \<le> n \<and> n \<le> 57 then Some (n - 48)
      else if 97 \<le> n \<and> n \<le> 102 then Some (n - 87)
      else if 65 \<le> n \<and> n \<le> 70 then Some (n - 55)
      else None)"

fun parseDigits :: "int \<Rightarrow> string \<Rightarrow> int \<Rightarrow> int option" where
  "parseDigits b [] acc = Some acc"
| "parseDigits b (c # cs) acc =
     (case digitValue c of
        None \<Rightarrow> None
      | Some d \<Rightarrow> if d < b then parseDigits b cs (acc * b + d) else None)"

definition parseLiteral :: "int \<Rightarrow> string \<Rightarrow> int option" where
  "parseLiteral b ds = (if ds = [] then None else parseDigits b ds 0)"

definition signedDecimal :: "string \<Rightarrow> int option" where
  "signedDecimal t =
     (case t of
        [] \<Rightarrow> None
      | c # ds \<Rightarrow>
          if c = CHR ''-'' then map_option uminus (parseLiteral 10 ds)
          else if c = CHR ''+'' then parseLiteral 10 ds
          else parseLiteral 10 t)"

definition BigInt :: "string \<Rightarrow> int option" where
  "BigInt s =
     (let t = trim s in
      if t = [] then Some 0
      else case t of
        c0 # c1 # ds \<Rightarrow>
          if c0 = CHR ''0'' \<and> (c1 = CHR ''x'' \<or> c1 = CHR ''X'') then parseLiteral 16 ds
          else if c0 = CHR ''0'' \<and> (c1 = CHR ''o'' \<or> c1 = CHR ''O'') then parseLiteral 8 ds
          else if c0 = CHR ''0'' \<and> (c1 = CHR ''b'' \<or> c1 = CHR ''B'') then parseLiteral 2 ds
          else signedDecimal t
      | _ \<Rightarrow> signedDecimal t)"

text \<open>
  \<^verbatim>\<open>parseFloat\<close> skips leading white space and reads the longest prefix that is a
  decimal literal (sign, digits, fraction, exponent) or \<^verbatim>\<open>Infinity\<close>; with no such
  prefix the result is \<open>NaN\<close>.
\<close>

definition isDigit :: "char \<Rightarrow> bool" where
  "isDigit c = (48 \<le> (of_char c :: int) \<and> (of_char c :: int) \<le> 57)"

definition decValue :: "string \<Rightarrow> int" where
  "decValue ds = foldl (\<lambda>a c. a * 10 + ((of_char c :: int) - 48)) 0 ds"

definition exponentDigits :: "string \<Rightarrow> int option" where
  "exponentDigits ds =
     (let d = takeWhile isDigit ds in if d = [] then None else Some (decValue d))"

definition exponentPart :: "string \<Rightarrow> int" where
  "exponentPart r =
     (case r of
        [] \<Rightarrow> 0
      | e # rest \<Rightarrow>
          if e = CHR ''e'' \<or> e = CHR ''E'' then
            (case rest of
               [] \<Rightarrow> 0
             | s # ds \<Rightarrow>
                 if s = CHR ''-'' then (case exponentDigits ds of None \<Rightarrow> 0 | Some k \<Rightarrow> - k)
                 else if s = CHR ''+'' then (case exponentDigits ds of None \<Rightarrow> 0 | Some k \<Rightarrow> k)
                 else (case exponentDigits rest of None \<Rightarrow> 0 | Some k \<Rightarrow> k))
          else 0)"

definition parseFloat :: "string \<Rightarrow> jsnum" where
  "parseFloat s =
     (let t = dropWhile isWhiteSpace s;
          neg = (t \<noteq> [] \<and> hd t = CHR ''-'');
          u = (if t \<noteq> [] \<and> (hd t = CHR ''-'' \<or> hd t = CHR ''+'') then tl t else t)
      in if take 8 u = ''Infinity'' then (if neg then NegInf else PosInf)
         else
           let ip = takeWhile isDigit u;
               r1 = dropWhile isDigit u;
               dot = (r1 \<noteq> [] \<and> hd r1 = CHR ''.'');
               fp = (if dot then takeWhile isDigit (tl r1) else []);
               r2 = (if dot then dropWhile isDigit (tl r1) else r1);
               m = real_of_int (decValue ip) + real_of_int (decValue fp) / 10 ^ length fp
           in if ip = [] \<and> fp = [] then NaN
              else Num ((if neg then - m else m) * pow10 (exponentPart r2)))"

section \<open>Upstream services\<close>

text \<open>
  Every upstream call is a \<^verbatim>\<open>fetch\<close>. It rejects (\<open>NetworkError\<close>) or resolves to a
  response with its \<^verbatim>\<open>ok\<close> flag and a body; the body is \<open>None\<close> when
  \<^verbatim>\<open>response.json()\<close> rejects. A parsed body is read at the types the providers
  document: a string member holds a string, a numeric member a number, a list member a
  list of objects, and every member may be missing or \<^verbatim>\<open>null\<close> (\<open>None\<close>). Only the
  members the server reads are kept, and \<^verbatim>\<open>native_token\<close> of a Covalent item, which it
  does not read. Documents of other shapes are outside this model.
\<close>

datatype 'a fetched = NetworkError | Response bool "'a option"

record covalent_item =
  cov_balance :: "string option"
  cov_quote :: "real option"
  cov_contract_decimals :: "int option"
  cov_contract_name :: "string option"
  cov_contract_ticker_symbol :: "string option"
  cov_native_token :: "bool option"

record moralis_item =
  mor_balance :: "string option"
  mor_decimals :: "int option"
  mor_usd_value :: "real option"
  mor_native_token :: "bool option"
  mor_name :: "string option"
  mor_token_address :: "string option"
  mor_symbol :: "string option"

record covalent_tx =
  ctx_tx_hash :: "string option"
  ctx_from_address :: "string option"
  ctx_to_address :: "string option"
  ctx_value :: "string option"
  ctx_value_quote :: "real option"
  ctx_gas_spent :: "real option"
  ctx_gas_quote :: "real option"
  ctx_successful :: "bool option"
  ctx_block_signed_at :: "string option"

text \<open>
  \<open>mtx_receipt_status\<close> is compared with \<^verbatim>\<open>undefined\<close> by the server: \<open>None\<close> is an
  absent property, \<open>Some None\<close> is \<^verbatim>\<open>null\<close>.
\<close>

record moralis_tx =
  mtx_hash :: "string option"
  mtx_transaction_hash :: "string option"
  mtx_from_address :: "string option"
  mtx_from :: "string option"
  mtx_to_address :: "string option"
  mtx_to :: "string option"
  mtx_value :: "real option"
  mtx_value_usd :: "real option"
  mtx_block_timestamp :: "string option"
  mtx_block_signed_at :: "string option"
  mtx_receipt_status :: "string option option"

typedecl raw_signature

datatype chain_id = ChainNumber nat | ChainName string

text \<open>
  The world answers each endpoint. The results are the parts of the documents the server
  reads: \<^verbatim>\<open>data.result\<close>, \<^verbatim>\<open>json?.result?.value\<close>, \<^verbatim>\<open>json?.result\<close>,
  \<^verbatim>\<open>json?.data?.items\<close>, \<^verbatim>\<open>json?.result\<close> and \<^verbatim>\<open>json?.[coinGeckoId]?.usd\<close>.
\<close>

record world =
  eth_getBalance :: "string \<Rightarrow> string \<Rightarrow> string option fetched"
  sol_getBalance :: "string \<Rightarrow> string \<Rightarrow> real option fetched"
  sol_getSignaturesForAddress :: "string \<Rightarrow> string \<Rightarrow> raw_signature list option fetched"
  covalent_balances_v2 :: "chain_id option \<Rightarrow> string \<Rightarrow> string \<Rightarrow> covalent_item list option fetched"
  covalent_transactions_v3 :: "chain_id option \<Rightarrow> string \<Rightarrow> string \<Rightarrow> covalent_tx list option fetched"
  moralis_wallet_tokens :: "string option \<Rightarrow> string \<Rightarrow> string \<Rightarrow> moralis_item list option fetched"
  moralis_wallet_history :: "string option \<Rightarrow> string \<Rightarrow> string \<Rightarrow> moralis_tx list option fetched"
  coingecko_simple_price :: "string option \<Rightarrow> real option fetched"
  existsSync :: "string \<Rightarrow> bool"

text \<open>The upstream requests a handler run has issued, in order.\<close>

datatype call =
    EthGetBalance | SolGetBalance | SolGetSignatures
  | CovalentBalances | CovalentTransactions
  | MoralisTokens | MoralisHistory
  | CoinGeckoPrice

section \<open>Blockchain configuration\<close>

record chain =
  chainId :: "chain_id option"
  rpc :: "string option"
  nativeSymbol :: "string option"
  coinGeckoId :: "string option"
  moralisChain :: "string option"

definition ownChain :: "string \<Rightarrow> chain option" where
  "ownChain network =
     (if network = ''ethereum'' then
        Some \<lparr>chainId = Some (ChainNumber 1), rpc = Some ''https://cloudflare-eth.com'',
              nativeSymbol = Some ''ETH'', coinGeckoId = Some ''ethereum'',
              moralisChain = Some ''eth''\<rparr>
      else if network = ''polygon'' then
        Some \<lparr>chainId = Some (ChainNumber 137), rpc = Some ''https://polygon-rpc.com'',
              nativeSymbol = Some ''MATIC'', coinGeckoId = Some ''polygon'',
              moralisChain = Some ''polygon''\<rparr>
      else if network = ''binance'' then
        Some \<lparr>chainId = Some (ChainNumber 56), rpc = Some ''https://bsc-dataseed.binance.org'',
              nativeSymbol = Some ''BNB'', coinGeckoId = Some ''binancecoin'',
              moralisChain = Some ''bsc''\<rparr>
      else if network = ''base'' then
        Some \<lparr>chainId = Some (ChainNumber 8453), rpc = Some ''https://mainnet.base.org'',
              nativeSymbol = Some ''ETH'', coinGeckoId = Some ''ethereum'',
              moralisChain = Some ''base''\<rparr>
      else if network = ''solana'' then
        Some \<lparr>chainId = Some (ChainName ''solana''),
              rpc = Some ''https://api.mainnet-beta.solana.com'',
              nativeSymbol = Some ''SOL'', coinGeckoId = Some ''solana'',
              moralisChain = Some ''solana''\<rparr>
      else None)"

text \<open>
  \<^verbatim>\<open>CHAIN_INFO\<close> is an object literal, so \<^verbatim>\<open>CHAIN_INFO[network]\<close> also finds the
  properties it inherits from \<^verbatim>\<open>Object.prototype\<close>. Each of them is a function or an
  object, hence truthy, and has none of the five properties of a chain entry.
\<close>

definition objectPrototypeKeys :: "string list" where
  "objectPrototypeKeys =
     [''constructor'', ''__proto__'', ''hasOwnProperty'', ''isPrototypeOf'',
      ''propertyIsEnumerable'', ''toLocaleString'', ''toString'', ''valueOf'',
      ''__defineGetter__'', ''__defineSetter__'', ''__lookupGetter__'', ''__lookupSetter__'']"

definition inheritedMember :: chain where
  "inheritedMember =
     \<lparr>chainId = None, rpc = None, nativeSymbol = None, coinGeckoId = None, moralisChain = None\<rparr>"

definition CHAIN_INFO :: "string \<Rightarrow> chain option" where
  "CHAIN_INFO network =
     (case ownChain network of
        Some c \<Rightarrow> Some c
      | None \<Rightarrow> if network \<in> set objectPrototypeKeys then Some inheritedMember else None)"

text \<open>The five recognized network identifiers.\<close>

definition recognized :: "string \<Rightarrow> bool" where
  "recognized network =
     (network \<in> {''ethereum'', ''polygon'', ''binance'', ''base'', ''solana''})"

section \<open>Source adapters\<close>

text \<open>
  The body of every adapter is a \<^verbatim>\<open>try\<close> block whose \<^verbatim>\<open>catch\<close> returns
  \<^verbatim>\<open>null\<close>: a rejected \<^verbatim>\<open>fetch\<close>, a status that is not \<^verbatim>\<open>ok\<close>, a body that is not
  JSON and a \<^verbatim>\<open>BigInt\<close> that throws all end in \<open>None\<close>. An adapter returns its result
  together with the upstream requests it has issued.
\<close>

subsection \<open>Native balances over RPC\<close>

datatype thrown = FetchFailed | BadStatus | BadJson

text \<open>
  \<^verbatim>\<open>jsonRpcRequest\<close> for the payload of \<^verbatim>\<open>eth_getBalance\<close>. \<^verbatim>\<open>fetch\<close> of an
  \<^verbatim>\<open>undefined\<close> endpoint rejects before anything is sent.
\<close>

definition jsonRpcRequest ::
  "world \<Rightarrow> string option \<Rightarrow> string \<Rightarrow> call list \<times> (thrown + string option)" where
  "jsonRpcRequest w endpoint address =
     (case endpoint of
        None \<Rightarrow> ([], Inl FetchFailed)
      | Some url \<Rightarrow>
          ([EthGetBalance],
           case eth_getBalance w url address of
             NetworkError \<Rightarrow> Inl FetchFailed
           | Response ok body \<Rightarrow>
               if ok then (case body of None \<Rightarrow> Inl BadJson | Some result \<Rightarrow> Inr result)
               else Inl BadStatus))"

definition getEvmNativeBalance ::
  "world \<Rightarrow> string option \<Rightarrow> string \<Rightarrow> call list \<times> jsnum option" where
  "getEvmNativeBalance w rpc_url address =
     (let (calls, data) = jsonRpcRequest w rpc_url address in
      (calls,
       case data of
         Inl err \<Rightarrow> None
       | Inr None \<Rightarrow> None
       | Inr (Some hex) \<Rightarrow>
           if hex = [] then None
           else (case BigInt hex of
                   None \<Rightarrow> None
                 | Some wei \<Rightarrow> Some (Num (real_of_int wei / 10 ^ 18)))))"

definition getSolanaBalance ::
  "world \<Rightarrow> string option \<Rightarrow> string \<Rightarrow> call list \<times> jsnum option" where
  "getSolanaBalance w rpc_url address =
     (case rpc_url of
        None \<Rightarrow> ([], None)
      | Some url \<Rightarrow>
          ([SolGetBalance],
           case sol_getBalance w url address of
             NetworkError \<Rightarrow> None
           | Response ok body \<Rightarrow>
               if ok then
                 (case body of
                    None \<Rightarrow> None
                  | Some None \<Rightarrow> None
                  | Some (Some lamports) \<Rightarrow> Some (Num (lamports / 10 ^ 9)))
               else None))"

definition getSolanaSignatures ::
  "world \<Rightarrow> string option \<Rightarrow> string \<Rightarrow> call list \<times> raw_signature list option" where
  "getSolanaSignatures w rpc_url address =
     (case rpc_url of
        None \<Rightarrow> ([], None)
      | Some url \<Rightarrow>
          ([SolGetSignatures],
           case sol_getSignaturesForAddress w url address of
             NetworkError \<Rightarrow> None
           | Response ok body \<Rightarrow>
               if ok then
                 (case body of
                    None \<Rightarrow> None
                  | Some None \<Rightarrow> Some []
                  | Some (Some result) \<Rightarrow> Some result)
               else None))"

definition getNativePriceUsd :: "world \<Rightarrow> string option \<Rightarrow> call list \<times> jsnum option" where
  "getNativePriceUsd w cgId =
     ([CoinGeckoPrice],
      case coingecko_simple_price w cgId of
        NetworkError \<Rightarrow> None
      | Response ok body \<Rightarrow>
          if ok then
            (case body of
               None \<Rightarrow> None
             | Some None \<Rightarrow> None
             | Some (Some price) \<Rightarrow> Some (Num price))
          else None)"

subsection \<open>Token balances from the providers\<close>

record token =
  contractName :: "string option"
  symbol :: "string option"
  balance :: jsnum
  decimals :: int
  quote :: real
  nativeToken :: "bool option"

record native_entry =
  native_balance :: jsnum
  native_usd :: real

record token_data =
  tokens :: "token list"
  portfolioValueUsd :: real
  nativeFromMoralis :: "native_entry option"

text \<open>The filter of \<^verbatim>\<open>getCovalentBalances\<close>: \<^verbatim>\<open>item.balance !== '0' && item.quote !== 0\<close>.\<close>

definition covalentKeep :: "covalent_item \<Rightarrow> bool" where
  "covalentKeep item = (cov_balance item \<noteq> Some ''0'' \<and> cov_quote item \<noteq> Some 0)"

text \<open>
  The object its \<^verbatim>\<open>map\<close> callback returns; \<open>None\<close> when \<^verbatim>\<open>BigInt\<close> throws. The
  callback also adds the \<open>quote\<close> of that object to \<^verbatim>\<open>portfolioValueUsd\<close>, which
  \<open>covalentMap\<close> does along the list.
\<close>

definition covalentToken :: "covalent_item \<Rightarrow> token option" where
  "covalentToken item =
     (case BigInt (orStr (cov_balance item) ''0'') of
        None \<Rightarrow> None
      | Some balanceRaw \<Rightarrow>
          let decs = (case cov_contract_decimals item of None \<Rightarrow> 0 | Some d \<Rightarrow> d);
              val = (case cov_quote item of None \<Rightarrow> 0 | Some q \<Rightarrow> q)
          in Some \<lparr>contractName = cov_contract_name item,
                   symbol = cov_contract_ticker_symbol item,
                   balance = Num (real_of_int balanceRaw / pow10 decs),
                   decimals = decs,
                   quote = val,
                   nativeToken = None\<rparr>)"

fun covalentMap :: "covalent_item list \<Rightarrow> real \<Rightarrow> (token list \<times> real) option" where
  "covalentMap [] portfolio = Some ([], portfolio)"
| "covalentMap (item # rest) portfolio =
     (case covalentToken item of
        None \<Rightarrow> None
      | Some t \<Rightarrow>
          (case covalentMap rest (portfolio + quote t) of
             None \<Rightarrow> None
           | Some (ts, usd) \<Rightarrow> Some (t # ts, usd)))"

text \<open>What \<^verbatim>\<open>getCovalentBalances\<close> makes of \<^verbatim>\<open>json?.data?.items\<close>.\<close>

definition covalentPortfolio :: "covalent_item list option \<Rightarrow> token_data option" where
  "covalentPortfolio doc =
     (let items = (case doc of None \<Rightarrow> [] | Some xs \<Rightarrow> xs) in
      case covalentMap (filter covalentKeep items) 0 of
        None \<Rightarrow> None
      | Some (ts, usd) \<Rightarrow>
          Some \<lparr>tokens = ts, portfolioValueUsd = usd, nativeFromMoralis = None\<rparr>)"

definition getCovalentBalances ::
  "world \<Rightarrow> chain_id option \<Rightarrow> string \<Rightarrow> string option \<Rightarrow> call list \<times> token_data option" where
  "getCovalentBalances w cid address apiKey =
     (case apiKey of
        None \<Rightarrow> ([], None)
      | Some k \<Rightarrow>
          if k = [] then ([], None)
          else
            ([CovalentBalances],
             case covalent_balances_v2 w cid address k of
               NetworkError \<Rightarrow> None
             | Response ok body \<Rightarrow>
                 if ok then (case body of None \<Rightarrow> None | Some doc \<Rightarrow> covalentPortfolio doc)
                 else None))"

text \<open>
  The balance of an item in \<^verbatim>\<open>getMoralisBalances\<close>: the inner \<^verbatim>\<open>try\<close> divides the
  \<^verbatim>\<open>BigInt\<close>, its \<^verbatim>\<open>catch\<close> falls back to \<^verbatim>\<open>parseFloat\<close>.
\<close>

definition moralisBalance :: "moralis_item \<Rightarrow> int \<Rightarrow> jsnum" where
  "moralisBalance item decs =
     (case BigInt (orStr (mor_balance item) ''0'') of
        Some bn \<Rightarrow> Num (real_of_int bn / pow10 decs)
      | None \<Rightarrow> parseFloat (orStr (mor_balance item) ''0''))"

text \<open>The \<^verbatim>\<open>for\<close> loop of \<^verbatim>\<open>getMoralisBalances\<close> over the state of its three variables.\<close>

fun moralisLoop :: "moralis_item list \<Rightarrow> token_data \<Rightarrow> token_data" where
  "moralisLoop [] st = st"
| "moralisLoop (item # rest) st =
     (if mor_balance item = Some ''0'' then moralisLoop rest st
      else
        let decs = (case mor_decimals item of None \<Rightarrow> 0 | Some d \<Rightarrow> d);
            bal = moralisBalance item decs;
            usdValue = (case mor_usd_value item of None \<Rightarrow> 0 | Some u \<Rightarrow> u)
        in if truthyBool (mor_native_token item) then
             moralisLoop rest
               (st\<lparr>nativeFromMoralis := Some \<lparr>native_balance = bal, native_usd = usdValue\<rparr>\<rparr>)
           else
             moralisLoop rest
               (st\<lparr>portfolioValueUsd := portfolioValueUsd st + usdValue,
                   tokens := tokens st @
                     [\<lparr>contractName =
                         Some (orStr (mor_name item) (orStr (mor_token_address item) [])),
                       symbol = Some (orStr (mor_symbol item) []),
                       balance = bal,
                       decimals = decs,
                       quote = usdValue,
                       nativeToken = Some False\<rparr>]\<rparr>))"

text \<open>What \<^verbatim>\<open>getMoralisBalances\<close> makes of \<^verbatim>\<open>json?.result\<close>.\<close>

definition moralisPortfolio :: "moralis_item list option \<Rightarrow> token_data" where
  "moralisPortfolio doc =
     moralisLoop (case doc of None \<Rightarrow> [] | Some xs \<Rightarrow> xs)
       \<lparr>tokens = [], portfolioValueUsd = 0, nativeFromMoralis = None\<rparr>"

definition getMoralisBalances ::
  "world \<Rightarrow> string option \<Rightarrow> string \<Rightarrow> string option \<Rightarrow> call list \<times> token_data option" where
  "getMoralisBalances w chainSlug address apiKey =
     (case apiKey of
        None \<Rightarrow> ([], None)
      | Some k \<Rightarrow>
          if k = [] then ([], None)
          else
            ([MoralisTokens],
             case moralis_wallet_tokens w chainSlug address k of
               NetworkError \<Rightarrow> None
             | Response ok body \<Rightarrow>
                 if ok then (case body of None \<Rightarrow> None | Some doc \<Rightarrow> Some (moralisPortfolio doc))
                 else None))"

subsection \<open>Transaction history from the providers\<close>

record covalent_out =
  co_txHash :: "string option"
  co_from :: "string option"
  co_to :: "string option"
  co_value :: "string option"
  co_valueQuote :: "real option"
  co_gasSpent :: "real option"
  co_gasQuote :: "real option"
  co_successful :: "bool option"
  co_timestamp :: "string option"

record moralis_out =
  mo_txHash :: string
  mo_from :: string
  mo_to :: string
  mo_value :: real
  mo_valueQuote :: "real option"
  mo_timestamp :: string
  mo_successful :: bool

datatype tx_list =
    CovalentTxs "covalent_out list"
  | MoralisTxs "moralis_out list"
  | SolanaSignatures "raw_signature list"

definition covalentTx :: "covalent_tx \<Rightarrow> covalent_out" where
  "covalentTx tx =
     \<lparr>co_txHash = ctx_tx_hash tx,
      co_from = ctx_from_address tx,
      co_to = ctx_to_address tx,
      co_value = ctx_value tx,
      co_valueQuote = ctx_value_quote tx,
      co_gasSpent = ctx_gas_spent tx,
      co_gasQuote = ctx_gas_quote tx,
      co_successful = ctx_successful tx,
      co_timestamp = ctx_block_signed_at tx\<rparr>"

definition getCovalentTransactions ::
  "world \<Rightarrow> chain_id option \<Rightarrow> string \<Rightarrow> string option \<Rightarrow> call list \<times> tx_list option" where
  "getCovalentTransactions w cid address apiKey =
     (case apiKey of
        None \<Rightarrow> ([], None)
      | Some k \<Rightarrow>
          if k = [] then ([], None)
          else
            ([CovalentTransactions],
             case covalent_transactions_v3 w cid address k of
               NetworkError \<Rightarrow> None
             | Response ok body \<Rightarrow>
                 if ok then
                   (case body of
                      None \<Rightarrow> None
                    | Some doc \<Rightarrow>
                        Some (CovalentTxs
                          (map covalentTx (case doc of None \<Rightarrow> [] | Some xs \<Rightarrow> xs))))
                 else None))"

definition moralisTx :: "moralis_tx \<Rightarrow> moralis_out" where
  "moralisTx tx =
     \<lparr>mo_txHash = orStr (mtx_hash tx) (orStr (mtx_transaction_hash tx) []),
      mo_from = orStr (mtx_from_address tx) (orStr (mtx_from tx) []),
      mo_to = orStr (mtx_to_address tx) (orStr (mtx_to tx) []),
      mo_value = (case mtx_value tx of None \<Rightarrow> 0 | Some v \<Rightarrow> v),
      mo_valueQuote = (if truthyNum (mtx_value_usd tx) then mtx_value_usd tx else None),
      mo_timestamp = orStr (mtx_block_timestamp tx) (orStr (mtx_block_signed_at tx) []),
      mo_successful = (case mtx_receipt_status tx of None \<Rightarrow> True | Some v \<Rightarrow> truthyStr v)\<rparr>"

definition getMoralisTransactions ::
  "world \<Rightarrow> string option \<Rightarrow> string \<Rightarrow> string option \<Rightarrow> call list \<times> tx_list option" where
  "getMoralisTransactions w chainSlug address apiKey =
     (case apiKey of
        None \<Rightarrow> ([], None)
      | Some k \<Rightarrow>
          if k = [] then ([], None)
          else
            ([MoralisHistory],
             case moralis_wallet_history w chainSlug address k of
               NetworkError \<Rightarrow> None
             | Response ok body \<Rightarrow>
                 if ok then
                   (case body of
                      None \<Rightarrow> None
                    | Some doc \<Rightarrow>
                        Some (MoralisTxs
                          (map moralisTx (case doc of None \<Rightarrow> [] | Some xs \<Rightarrow> xs))))
                 else None))"

section \<open>Request routing and the merge policy\<close>

text \<open>
  \<^verbatim>\<open>process.env\<close>: the two provider keys. A key is configured when it is a non-empty
  string.
\<close>

record env =
  MORALIS_API_KEY :: "string option"
  COVALENT_API_KEY :: "string option"

text \<open>
  A request: its method, the path of its URL and the two query parameters as
  \<^verbatim>\<open>searchParams.get\<close> returns them (\<open>None\<close> for \<^verbatim>\<open>null\<close>).
\<close>

record request =
  req_method :: string
  pathname :: string
  network :: "string option"
  address :: "string option"

record balances_body =
  b_network :: string
  b_address :: string
  nativeBalance :: "jsnum option"
  b_nativeSymbol :: "string option"
  nativeValueUsd :: "jsnum option"
  tokenBalances :: "token list option"
  tokenPortfolioValueUsd :: "real option"

record transactions_body =
  t_network :: string
  t_address :: string
  transactions :: "tx_list option"

datatype body =
    NoBody
  | ErrorBody string
  | BalancesBody balances_body
  | TransactionsBody transactions_body
  | FileBody string

record response =
  statusCode :: nat
  body :: body

text \<open>Lines 431 to 460 of the handler: the native balance over RPC.\<close>

definition rpcNativeBalance ::
  "world \<Rightarrow> string \<Rightarrow> string \<Rightarrow> chain \<Rightarrow> call list \<times> jsnum option" where
  "rpcNativeBalance w net addr ch =
     (if net = ''solana'' then getSolanaBalance w (rpc ch) addr
      else getEvmNativeBalance w (rpc ch) addr)"

text \<open>
  The same lines: the token data of the selected provider, and \<^verbatim>\<open>moralisNative\<close>,
  which only the two Moralis branches assign.
\<close>

definition moralisNativeOf :: "token_data option \<Rightarrow> native_entry option" where
  "moralisNativeOf tokenData =
     (case tokenData of None \<Rightarrow> None | Some td \<Rightarrow> nativeFromMoralis td)"

definition selectTokenData ::
  "env \<Rightarrow> world \<Rightarrow> string \<Rightarrow> string \<Rightarrow> chain
     \<Rightarrow> call list \<times> token_data option \<times> native_entry option" where
  "selectTokenData e w net addr ch =
     (if net = ''solana'' then
        (if truthyStr (MORALIS_API_KEY e) then
           (let (calls, tokenData) = getMoralisBalances w (moralisChain ch) addr (MORALIS_API_KEY e)
            in (calls, tokenData, moralisNativeOf tokenData))
         else ([], None, None))
      else if truthyStr (MORALIS_API_KEY e) then
        (let (calls, tokenData) = getMoralisBalances w (moralisChain ch) addr (MORALIS_API_KEY e)
         in (calls, tokenData, moralisNativeOf tokenData))
      else if truthyStr (COVALENT_API_KEY e) then
        (let (calls, tokenData) = getCovalentBalances w (chainId ch) addr (COVALENT_API_KEY e)
         in (calls, tokenData, None))
      else ([], None, None))"

text \<open>Lines 463 to 492: the merge of the three results into the response body.\<close>

definition mergeBalances ::
  "string \<Rightarrow> string \<Rightarrow> chain \<Rightarrow> jsnum option \<Rightarrow> token_data option
     \<Rightarrow> native_entry option \<Rightarrow> jsnum option \<Rightarrow> balances_body" where
  "mergeBalances net addr ch nativeBalance0 tokenData moralisNative priceUsd =
     (let nativeValueUsd0 =
            (case nativeBalance0 of
               None \<Rightarrow> None
             | Some b \<Rightarrow> (case priceUsd of None \<Rightarrow> None | Some p \<Rightarrow> Some (js_mul b p)));
          nativeBalance1 =
            (if (case nativeBalance0 of None \<Rightarrow> True | Some b \<Rightarrow> isNaN b) then
               (case moralisNative of
                  None \<Rightarrow> nativeBalance0
                | Some n \<Rightarrow> Some (native_balance n))
             else nativeBalance0);
          nativeValueUsd1 =
            (case nativeValueUsd0 of
               None \<Rightarrow> (case moralisNative of None \<Rightarrow> None | Some n \<Rightarrow> Some (Num (native_usd n)))
             | Some v \<Rightarrow> Some v)
      in \<lparr>b_network = net,
          b_address = addr,
          nativeBalance = nativeBalance1,
          b_nativeSymbol = nativeSymbol ch,
          nativeValueUsd = nativeValueUsd1,
          tokenBalances = map_option tokens tokenData,
          tokenPortfolioValueUsd = map_option portfolioValueUsd tokenData\<rparr>)"

definition balancesRoute ::
  "env \<Rightarrow> world \<Rightarrow> string \<Rightarrow> string \<Rightarrow> chain \<Rightarrow> call list \<times> balances_body" where
  "balancesRoute e w net addr ch =
     (let (c1, nativeBalance0) = rpcNativeBalance w net addr ch;
          (c2, tokenData, moralisNative) = selectTokenData e w net addr ch;
          (c3, priceUsd) = getNativePriceUsd w (coinGeckoId ch)
      in (c1 @ c2 @ c3, mergeBalances net addr ch nativeBalance0 tokenData moralisNative priceUsd))"

text \<open>Lines 507 to 522: the source of the transaction history.\<close>

definition transactionsRoute ::
  "env \<Rightarrow> world \<Rightarrow> string \<Rightarrow> string \<Rightarrow> chain \<Rightarrow> call list \<times> tx_list option" where
  "transactionsRoute e w net addr ch =
     (if net = ''solana'' then
        (let (calls, sigs) = getSolanaSignatures w (rpc ch) addr
         in (calls, map_option SolanaSignatures sigs))
      else if truthyStr (MORALIS_API_KEY e) then
        getMoralisTransactions w (moralisChain ch) addr (MORALIS_API_KEY e)
      else if truthyStr (COVALENT_API_KEY e) then
        getCovalentTransactions w (chainId ch) addr (COVALENT_API_KEY e)
      else ([], None))"

text \<open>
  The guard \<^verbatim>\<open>!network || !address || !CHAIN_INFO[network]\<close> of both routes: the
  parameters and the chain entry when it lets the request through.
\<close>

definition checkParams :: "request \<Rightarrow> (string \<times> string \<times> chain) option" where
  "checkParams req =
     (case network req of
        None \<Rightarrow> None
      | Some net \<Rightarrow>
          (case address req of
             None \<Rightarrow> None
           | Some addr \<Rightarrow>
               if net = [] \<or> addr = [] then None
               else (case CHAIN_INFO net of None \<Rightarrow> None | Some ch \<Rightarrow> Some (net, addr, ch))))"

definition badRequest :: response where
  "badRequest = \<lparr>statusCode = 400, body = ErrorBody ''Missing or invalid network/address''\<rparr>"

text \<open>
  The file a path names below the client directory, before \<^verbatim>\<open>path.join\<close> normalizes
  it.
\<close>

definition staticFile :: "string \<Rightarrow> string option" where
  "staticFile p =
     (if p = ''/'' \<or> p = ''/index.html'' then Some ''index.html''
      else if take 8 p = ''/static/'' then Some (drop 8 p)
      else if p = ''/style.css'' then Some ''style.css''
      else if p = ''/script.js'' then Some ''script.js''
      else None)"

text \<open>
  \<^verbatim>\<open>handleRequest\<close>: the upstream calls it issues and the response it ends with.
  The request is taken as parsed (\<^verbatim>\<open>new URL\<close> stands before the \<^verbatim>\<open>try\<close> block), and
  headers are not modelled. No statement of its \<^verbatim>\<open>try\<close> block throws on the values
  of this model (every adapter catches what it raises), so the \<^verbatim>\<open>catch\<close> branch that
  answers 500 has no counterpart here.
\<close>

definition handleRequest :: "env \<Rightarrow> world \<Rightarrow> request \<Rightarrow> call list \<times> response" where
  "handleRequest e w req =
     (if req_method req = ''OPTIONS'' then ([], \<lparr>statusCode = 204, body = NoBody\<rparr>)
      else if pathname req = ''/api/balances'' \<and> req_method req = ''GET'' then
        (case checkParams req of
           None \<Rightarrow> ([], badRequest)
         | Some (net, addr, ch) \<Rightarrow>
             (let (calls, responseBody) = balancesRoute e w net addr ch
              in (calls, \<lparr>statusCode = 200, body = BalancesBody responseBody\<rparr>)))
      else if pathname req = ''/api/transactions'' \<and> req_method req = ''GET'' then
        (case checkParams req of
           None \<Rightarrow> ([], badRequest)
         | Some (net, addr, ch) \<Rightarrow>
             (let (calls, txs) = transactionsRoute e w net addr ch
              in (calls,
                  \<lparr>statusCode = 200,
                   body = TransactionsBody
                     \<lparr>t_network = net, t_address = addr, transactions = txs\<rparr>\<rparr>)))
      else
        (case staticFile (pathname req) of
           None \<Rightarrow> ([], \<lparr>statusCode = 404, body = ErrorBody ''Not Found''\<rparr>)
         | Some f \<Rightarrow>
             if existsSync w f then ([], \<lparr>statusCode = 200, body = FileBody f\<rparr>)
             else ([], \<lparr>statusCode = 404, body = ErrorBody ''Not Found''\<rparr>)))"

section \<open>Notions the properties are stated with\<close>

text \<open>
  A query with a valid network and address: a \<^verbatim>\<open>GET\<close> whose \<^verbatim>\<open>network\<close> is one of the
  five recognized identifiers and whose \<^verbatim>\<open>address\<close> is a non-empty string.
\<close>

definition validQuery :: "request \<Rightarrow> string \<Rightarrow> string \<Rightarrow> bool" where
  "validQuery req net addr =
     (req_method req = ''GET'' \<and> network req = Some net \<and> address req = Some addr \<and>
      recognized net \<and> addr \<noteq> [])"

text \<open>The requests to a token-data provider among the calls of a run.\<close>

definition tokenProviderCalls :: "call list \<Rightarrow> call list" where
  "tokenProviderCalls calls = filter (\<lambda>c. c = MoralisTokens \<or> c = CovalentBalances) calls"

text \<open>The body of a balances response and of a transactions response.\<close>

definition balancesOf :: "response \<Rightarrow> balances_body option" where
  "balancesOf r = (case body r of BalancesBody b \<Rightarrow> Some b | _ \<Rightarrow> None)"

definition transactionsOf :: "response \<Rightarrow> transactions_body option" where
  "transactionsOf r = (case body r of TransactionsBody t \<Rightarrow> Some t | _ \<Rightarrow> None)"


text \<open>
  An upstream call whose result cannot be used: it fails, or the member the server reads
  is missing from the document, or its value is \<open>bad\<close>.
\<close>

definition unusable :: "('a \<Rightarrow> bool) \<Rightarrow> 'a option fetched \<Rightarrow> bool" where
  "unusable bad f =
     (case f of
        NetworkError \<Rightarrow> True
      | Response ok doc \<Rightarrow>
          if ok then (case doc of None \<Rightarrow> True | Some None \<Rightarrow> True | Some (Some v) \<Rightarrow> bad v)
          else True)"

text \<open>
  The RPC call of a balances request yields no balance: on an EVM network also when the
  result is empty or not an integer literal.
\<close>

definition rpcDown :: "world \<Rightarrow> string \<Rightarrow> string \<Rightarrow> chain \<Rightarrow> bool" where
  "rpcDown w net addr ch =
     (case rpc ch of
        None \<Rightarrow> True
      | Some url \<Rightarrow>
          if net = ''solana'' then unusable (\<lambda>lamports. False) (sol_getBalance w url addr)
          else unusable (\<lambda>hex. hex = [] \<or> BigInt hex = None) (eth_getBalance w url addr))"








section \<open>Concrete configurations, worlds and requests\<close>

definition noKeys :: env where
  "noKeys = \<lparr>MORALIS_API_KEY = None, COVALENT_API_KEY = None\<rparr>"

definition moralisKey :: env where
  "moralisKey = \<lparr>MORALIS_API_KEY = Some ''moralis-key'', COVALENT_API_KEY = None\<rparr>"

definition covalentKey :: env where
  "covalentKey = \<lparr>MORALIS_API_KEY = None, COVALENT_API_KEY = Some ''covalent-key''\<rparr>"

definition balancesRequest :: "string \<Rightarrow> string \<Rightarrow> request" where
  "balancesRequest net addr =
     \<lparr>req_method = ''GET'', pathname = ''/api/balances'', network = Some net,
      address = Some addr\<rparr>"

definition transactionsRequest :: "string \<Rightarrow> string \<Rightarrow> request" where
  "transactionsRequest net addr =
     \<lparr>req_method = ''GET'', pathname = ''/api/transactions'', network = Some net,
      address = Some addr\<rparr>"

text \<open>The entry of \<^verbatim>\<open>CHAIN_INFO\<close> for Ethereum.\<close>

definition ethereumChain :: chain where
  "ethereumChain =
     \<lparr>chainId = Some (ChainNumber 1), rpc = Some ''https://cloudflare-eth.com'',
      nativeSymbol = Some ''ETH'', coinGeckoId = Some ''ethereum'',
      moralisChain = Some ''eth''\<rparr>"

text \<open>Every upstream service is unreachable.\<close>

definition deadWorld :: world where
  "deadWorld =
     \<lparr>eth_getBalance = (\<lambda>url a. NetworkError),
      sol_getBalance = (\<lambda>url a. NetworkError),
      sol_getSignaturesForAddress = (\<lambda>url a. NetworkError),
      covalent_balances_v2 = (\<lambda>c a k. NetworkError),
      covalent_transactions_v3 = (\<lambda>c a k. NetworkError),
      moralis_wallet_tokens = (\<lambda>c a k. NetworkError),
      moralis_wallet_history = (\<lambda>c a k. NetworkError),
      coingecko_simple_price = (\<lambda>c. NetworkError),
      existsSync = (\<lambda>f. False)\<rparr>"

text \<open>The RPC reports the balance \<open>hex\<close> in wei and the price API the price \<open>p\<close>.\<close>

definition rpcPriceWorld :: "string \<Rightarrow> real \<Rightarrow> world" where
  "rpcPriceWorld hex p =
     deadWorld
       \<lparr>eth_getBalance := (\<lambda>url a. Response True (Some (Some hex))),
        coingecko_simple_price := (\<lambda>c. Response True (Some (Some p)))\<rparr>"

text \<open>
  One ether, as Covalent and as Moralis report the native token of Ethereum inline
  (Moralis with the USD value \<open>usd\<close>).
\<close>

definition covalentEther :: covalent_item where
  "covalentEther =
     \<lparr>cov_balance = Some ''1000000000000000000'', cov_quote = Some 2000,
      cov_contract_decimals = Some 18, cov_contract_name = Some ''Ether'',
      cov_contract_ticker_symbol = Some ''ETH'', cov_native_token = Some True\<rparr>"

definition moralisEther :: "real \<Rightarrow> moralis_item" where
  "moralisEther usd =
     \<lparr>mor_balance = Some ''1000000000000000000'', mor_decimals = Some 18,
      mor_usd_value = Some usd, mor_native_token = Some True, mor_name = Some ''Ether'',
      mor_token_address = None, mor_symbol = Some ''ETH''\<rparr>"

text \<open>
  The RPC and the price API answer (one ether, 2000 USD) and Covalent lists the ether
  among the tokens.
\<close>

definition covalentNativeWorld :: world where
  "covalentNativeWorld =
     (rpcPriceWorld ''0xde0b6b3a7640000'' 2000)
       \<lparr>covalent_balances_v2 := (\<lambda>c a k. Response True (Some (Some [covalentEther])))\<rparr>"

text \<open>Only Moralis answers, and lists the ether as worth \<open>usd\<close>.\<close>

definition moralisNativeWorld :: "real \<Rightarrow> world" where
  "moralisNativeWorld usd =
     deadWorld
       \<lparr>moralis_wallet_tokens := (\<lambda>c a k. Response True (Some (Some [moralisEther usd])))\<rparr>"

text \<open>The RPC answers (one ether), the price API does not, and Moralis lists the ether.\<close>

definition rpcMoralisWorld :: world where
  "rpcMoralisWorld =
     (moralisNativeWorld 2000)
       \<lparr>eth_getBalance := (\<lambda>url a. Response True (Some (Some ''0xde0b6b3a7640000'')))\<rparr>"

text \<open>
  The RPC does not answer, the price is 2000 USD, and Moralis lists the ether as worth
  1900 USD.
\<close>

definition priceMoralisWorld :: world where
  "priceMoralisWorld =
     (moralisNativeWorld 1900)
       \<lparr>coingecko_simple_price := (\<lambda>c. Response True (Some (Some 2000)))\<rparr>"

text \<open>A Solana RPC that reports \<open>lamports\<close>.\<close>

definition solanaWorld :: "real \<Rightarrow> world" where
  "solanaWorld lamports =
     deadWorld\<lparr>sol_getBalance := (\<lambda>url a. Response True (Some (Some lamports)))\<rparr>"

text \<open>A token with a raw balance and a number of decimals, as each provider lists it.\<close>

definition covalentHolding :: "string \<Rightarrow> int \<Rightarrow> real \<Rightarrow> covalent_item" where
  "covalentHolding raw d q =
     \<lparr>cov_balance = Some raw, cov_quote = Some q, cov_contract_decimals = Some d,
      cov_contract_name = Some ''Token'', cov_contract_ticker_symbol = Some ''TKN'',
      cov_native_token = Some False\<rparr>"

definition moralisHolding :: "string \<Rightarrow> int \<Rightarrow> real \<Rightarrow> moralis_item" where
  "moralisHolding raw d q =
     \<lparr>mor_balance = Some raw, mor_decimals = Some d, mor_usd_value = Some q,
      mor_native_token = Some False, mor_name = Some ''Token'', mor_token_address = None,
      mor_symbol = Some ''TKN''\<rparr>"





section \<open>Properties\<close>

subsection \<open>Evaluations\<close>

lemma BigInt_one_ether_hex: "BigInt ''0xde0b6b3a7640000'' = Some 1000000000000000000"
  by code_simp

lemma BigInt_half_ether_hex: "BigInt ''0x6f05b59d3b20000'' = Some 500000000000000000"
  by code_simp

lemma BigInt_one_ether_dec: "BigInt ''1000000000000000000'' = Some 1000000000000000000"
  by code_simp

lemma BigInt_150000: "BigInt ''150000'' = Some 150000"
  by code_simp



lemma ownChain_ethereum: "ownChain ''ethereum'' = Some ethereumChain"
  by (simp add: ownChain_def ethereumChain_def)

lemma CHAIN_INFO_ethereum: "CHAIN_INFO ''ethereum'' = Some ethereumChain"
  by (simp add: CHAIN_INFO_def ownChain_ethereum)

lemma ethereumChain_sel:
  "nativeSymbol ethereumChain = Some ''ETH''"
  "coinGeckoId ethereumChain = Some ''ethereum''"
  "rpc ethereumChain = Some ''https://cloudflare-eth.com''"
  by (simp_all add: ethereumChain_def)

lemma balancesRequest_sel:
  "req_method (balancesRequest net addr) = ''GET''"
  "pathname (balancesRequest net addr) = ''/api/balances''"
  by (simp_all add: balancesRequest_def)

lemma transactionsRequest_sel:
  "req_method (transactionsRequest net addr) = ''GET''"
  "pathname (transactionsRequest net addr) = ''/api/transactions''"
  by (simp_all add: transactionsRequest_def)

lemma valid_balancesRequest:
  "recognized net \<Longrightarrow> addr \<noteq> [] \<Longrightarrow> validQuery (balancesRequest net addr) net addr"
  by (simp add: validQuery_def balancesRequest_def)

lemma valid_transactionsRequest:
  "recognized net \<Longrightarrow> addr \<noteq> [] \<Longrightarrow> validQuery (transactionsRequest net addr) net addr"
  by (simp add: validQuery_def transactionsRequest_def)

lemma valid_ethereum_balances:
  "validQuery (balancesRequest ''ethereum'' ''0xabc'') ''ethereum'' ''0xabc''"
  by (simp add: valid_balancesRequest recognized_def)

lemma valid_ethereum_transactions:
  "validQuery (transactionsRequest ''ethereum'' ''0xabc'') ''ethereum'' ''0xabc''"
  by (simp add: valid_transactionsRequest recognized_def)

subsection \<open>The guard of the two routes\<close>

lemma recognized_own: "recognized net \<Longrightarrow> \<exists>ch. ownChain net = Some ch"
  by (auto simp: recognized_def ownChain_def)

lemma recognized_CHAIN_INFO: "recognized net \<Longrightarrow> CHAIN_INFO net = ownChain net"
  by (auto simp: recognized_def ownChain_def CHAIN_INFO_def)

lemma ownChain_None: "ownChain net = None \<longleftrightarrow> \<not> recognized net"
  by (simp add: ownChain_def recognized_def)

lemma CHAIN_INFO_None:
  "CHAIN_INFO net = None \<longleftrightarrow> \<not> recognized net \<and> net \<notin> set objectPrototypeKeys"
  by (cases "ownChain net") (auto simp: CHAIN_INFO_def ownChain_None [symmetric])

lemma checkParams_valid:
  assumes "validQuery req net addr"
  shows "\<exists>ch. CHAIN_INFO net = Some ch \<and> checkParams req = Some (net, addr, ch)"
proof -
  from assms have r: "recognized net" and n: "network req = Some net"
    and a: "address req = Some addr" and ne: "addr \<noteq> []"
    by (simp_all add: validQuery_def)
  from r obtain ch where ch: "ownChain net = Some ch" using recognized_own by blast
  from r have nn: "net \<noteq> []" by (auto simp: recognized_def)
  have "CHAIN_INFO net = Some ch" using r ch by (simp add: recognized_CHAIN_INFO)
  then show ?thesis using n a ne nn by (simp add: checkParams_def)
qed

lemma checkParams_chain:
  assumes "validQuery req net addr" "CHAIN_INFO net = Some ch"
  shows "checkParams req = Some (net, addr, ch)"
  using checkParams_valid [OF assms(1)] assms(2) by auto

lemma checkParams_None:
  assumes "network req = None \<or> network req = Some [] \<or> address req = None \<or>
           address req = Some [] \<or>
           (\<exists>net. network req = Some net \<and> \<not> recognized net \<and> net \<notin> set objectPrototypeKeys)"
  shows "checkParams req = None"
proof -
  have "CHAIN_INFO net = None"
    if "\<not> recognized net" "net \<notin> set objectPrototypeKeys" for net
    using that by (simp add: CHAIN_INFO_None)
  with assms show ?thesis
    by (auto simp: checkParams_def split: option.splits)
qed

text \<open>
  What the guard does reject, on both routes: a missing or empty parameter, and a
  network that is neither recognized nor the name of an inherited property.
\<close>

lemma guard_rejects:
  assumes "req_method req = ''GET''"
    and "pathname req = ''/api/balances'' \<or> pathname req = ''/api/transactions''"
    and "network req = None \<or> network req = Some [] \<or> address req = None \<or>
         address req = Some [] \<or>
         (\<exists>net. network req = Some net \<and> \<not> recognized net \<and> net \<notin> set objectPrototypeKeys)"
  shows "handleRequest e w req = ([], badRequest)"
  using assms(1,2) checkParams_None [OF assms(3)] by (auto simp: handleRequest_def)

lemma dogecoin_rejected:
  "handleRequest e w (balancesRequest ''dogecoin'' ''0xabc'') = ([], badRequest) \<and>
   handleRequest e w (transactionsRequest ''dogecoin'' ''0xabc'') = ([], badRequest)"
proof -
  have n: "\<not> recognized ''dogecoin'' \<and> ''dogecoin'' \<notin> set objectPrototypeKeys"
    by (simp add: recognized_def objectPrototypeKeys_def)
  have "handleRequest e w (balancesRequest ''dogecoin'' ''0xabc'') = ([], badRequest)"
    using n by (intro guard_rejects) (simp_all add: balancesRequest_def)
  moreover have "handleRequest e w (transactionsRequest ''dogecoin'' ''0xabc'') = ([], badRequest)"
    using n by (intro guard_rejects) (simp_all add: transactionsRequest_def)
  ultimately show ?thesis by simp
qed

lemma CHAIN_INFO_constructor: "CHAIN_INFO ''constructor'' = Some inheritedMember"
  by (simp add: CHAIN_INFO_def ownChain_def objectPrototypeKeys_def)

lemma checkParams_constructor:
  "checkParams (balancesRequest ''constructor'' ''0xabc'') =
     Some (''constructor'', ''0xabc'', inheritedMember)"
  "checkParams (transactionsRequest ''constructor'' ''0xabc'') =
     Some (''constructor'', ''0xabc'', inheritedMember)"
  by (simp_all add: checkParams_def balancesRequest_def transactionsRequest_def
      CHAIN_INFO_constructor)

subsection \<open>The structure of a run\<close>

lemma handle_balances:
  assumes "checkParams req = Some (net, addr, ch)" "req_method req = ''GET''"
    "pathname req = ''/api/balances''"
  shows "handleRequest e w req =
           (fst (balancesRoute e w net addr ch),
            \<lparr>statusCode = 200, body = BalancesBody (snd (balancesRoute e w net addr ch))\<rparr>)"
  using assms by (simp add: handleRequest_def case_prod_beta)

lemma handle_transactions:
  assumes "checkParams req = Some (net, addr, ch)" "req_method req = ''GET''"
    "pathname req = ''/api/transactions''"
  shows "handleRequest e w req =
           (fst (transactionsRoute e w net addr ch),
            \<lparr>statusCode = 200, body = TransactionsBody
               \<lparr>t_network = net, t_address = addr,
                transactions = snd (transactionsRoute e w net addr ch)\<rparr>\<rparr>)"
  using assms by (simp add: handleRequest_def case_prod_beta)

lemma balances_response:
  assumes "validQuery req net addr" "pathname req = ''/api/balances''" "CHAIN_INFO net = Some ch"
  shows "snd (handleRequest e w req) =
           \<lparr>statusCode = 200, body = BalancesBody (snd (balancesRoute e w net addr ch))\<rparr>"
proof -
  from assms(1) have g: "req_method req = ''GET''" by (simp add: validQuery_def)
  show ?thesis
    using handle_balances [OF checkParams_chain [OF assms(1,3)] g assms(2)] by simp
qed

lemma transactions_response:
  assumes "validQuery req net addr" "pathname req = ''/api/transactions''"
    "CHAIN_INFO net = Some ch"
  shows "snd (handleRequest e w req) =
           \<lparr>statusCode = 200, body = TransactionsBody
              \<lparr>t_network = net, t_address = addr,
               transactions = snd (transactionsRoute e w net addr ch)\<rparr>\<rparr>"
proof -
  from assms(1) have g: "req_method req = ''GET''" by (simp add: validQuery_def)
  show ?thesis
    using handle_transactions [OF checkParams_chain [OF assms(1,3)] g assms(2)] by simp
qed

lemma balancesRoute_calls:
  "fst (balancesRoute e w net addr ch) =
     fst (rpcNativeBalance w net addr ch) @ fst (selectTokenData e w net addr ch) @
     [CoinGeckoPrice]"
  by (simp add: balancesRoute_def getNativePriceUsd_def case_prod_beta)

lemma balancesRoute_body:
  "snd (balancesRoute e w net addr ch) =
     mergeBalances net addr ch (snd (rpcNativeBalance w net addr ch))
       (fst (snd (selectTokenData e w net addr ch)))
       (snd (snd (selectTokenData e w net addr ch)))
       (snd (getNativePriceUsd w (coinGeckoId ch)))"
  by (simp add: balancesRoute_def case_prod_beta)

lemma getMoralisBalances_calls:
  "fst (getMoralisBalances w slug addr k) = (if truthyStr k then [MoralisTokens] else [])"
  by (simp add: getMoralisBalances_def truthyStr_def split: option.splits)

lemma getCovalentBalances_calls:
  "fst (getCovalentBalances w cid addr k) = (if truthyStr k then [CovalentBalances] else [])"
  by (simp add: getCovalentBalances_def truthyStr_def split: option.splits)

lemma selectTokenData_calls:
  "fst (selectTokenData e w net addr ch) =
     (if truthyStr (MORALIS_API_KEY e) then [MoralisTokens]
      else if net \<noteq> ''solana'' \<and> truthyStr (COVALENT_API_KEY e) then [CovalentBalances]
      else [])"
  by (simp add: selectTokenData_def getMoralisBalances_calls getCovalentBalances_calls
      case_prod_beta)

lemma rpcNativeBalance_calls:
  "tokenProviderCalls (fst (rpcNativeBalance w net addr ch)) = []"
  by (simp add: rpcNativeBalance_def getSolanaBalance_def getEvmNativeBalance_def
      jsonRpcRequest_def tokenProviderCalls_def case_prod_beta split: option.splits)

subsection \<open>The merge and the adapters when a source yields nothing\<close>

lemma merge_tokenBalances:
  "tokenBalances (mergeBalances net addr ch nb td mn p) = map_option tokens td"
  by (simp add: mergeBalances_def Let_def)

lemma merge_tokenPortfolioValueUsd:
  "tokenPortfolioValueUsd (mergeBalances net addr ch nb td mn p) = map_option portfolioValueUsd td"
  by (simp add: mergeBalances_def Let_def)

lemma merge_nativeBalance:
  "nativeBalance (mergeBalances net addr ch nb td mn p) =
     (if nb = None \<or> nb = Some NaN then (case mn of None \<Rightarrow> nb | Some n \<Rightarrow> Some (native_balance n))
      else nb)"
  by (auto simp: mergeBalances_def Let_def isNaN_def split: option.splits)

lemma merge_nativeValueUsd:
  "nativeValueUsd (mergeBalances net addr ch nb td mn p) =
     (case nb of
        None \<Rightarrow> map_option (\<lambda>n. Num (native_usd n)) mn
      | Some b \<Rightarrow>
          (case p of
             None \<Rightarrow> map_option (\<lambda>n. Num (native_usd n)) mn
           | Some q \<Rightarrow> Some (js_mul b q)))"
  by (simp add: mergeBalances_def Let_def split: option.splits)

lemma selectTokenData_unselected:
  assumes "\<not> truthyStr (MORALIS_API_KEY e)"
    and "net = ''solana'' \<or> \<not> truthyStr (COVALENT_API_KEY e)"
  shows "snd (selectTokenData e w net addr ch) = (None, None)"
  using assms by (auto simp: selectTokenData_def)




lemma rpcNativeBalance_down:
  assumes "rpcDown w net addr ch"
  shows "snd (rpcNativeBalance w net addr ch) = None"
  using assms
  by (auto simp: rpcNativeBalance_def rpcDown_def getSolanaBalance_def getEvmNativeBalance_def
      jsonRpcRequest_def unusable_def case_prod_beta
      split: option.splits fetched.splits if_splits)











subsection \<open>The concrete worlds\<close>

lemma moralisPortfolio_ether:
  "moralisPortfolio (Some [moralisEther usd]) =
     \<lparr>tokens = [], portfolioValueUsd = 0,
      nativeFromMoralis = Some \<lparr>native_balance = Num 1, native_usd = usd\<rparr>\<rparr>"
  by (simp add: moralisPortfolio_def moralisEther_def moralisBalance_def orStr_def
      BigInt_one_ether_dec truthyBool_def pow10_def)

lemma covalentPortfolio_ether:
  "covalentPortfolio (Some [covalentEther]) =
     Some \<lparr>tokens = [\<lparr>contractName = Some ''Ether'', symbol = Some ''ETH'', balance = Num 1,
                       decimals = 18, quote = 2000, nativeToken = None\<rparr>],
           portfolioValueUsd = 2000, nativeFromMoralis = None\<rparr>"
  by (simp add: covalentPortfolio_def covalentEther_def covalentKeep_def covalentToken_def
      orStr_def BigInt_one_ether_dec pow10_def)


lemma rpc_priceMoralisWorld:
  "snd (rpcNativeBalance priceMoralisWorld ''ethereum'' ''0xabc'' ethereumChain) = None"
  by (simp add: rpcNativeBalance_down rpcDown_def priceMoralisWorld_def moralisNativeWorld_def
      deadWorld_def unusable_def ethereumChain_def)

lemma rpc_rpcMoralisWorld:
  "snd (rpcNativeBalance rpcMoralisWorld ''ethereum'' ''0xabc'' ethereumChain) = Some (Num 1)"
  by (simp add: rpcNativeBalance_def getEvmNativeBalance_def jsonRpcRequest_def
      rpcMoralisWorld_def moralisNativeWorld_def deadWorld_def ethereumChain_def
      BigInt_one_ether_hex)

lemma rpc_rpcPriceWorld_half:
  "snd (rpcNativeBalance (rpcPriceWorld ''0x6f05b59d3b20000'' 2000) ''ethereum'' ''0xabc''
     ethereumChain) = Some (Num (1 / 2))"
  by (simp add: rpcNativeBalance_def getEvmNativeBalance_def jsonRpcRequest_def
      rpcPriceWorld_def deadWorld_def ethereumChain_def BigInt_half_ether_hex)

lemma rpc_covalentNativeWorld:
  "snd (rpcNativeBalance covalentNativeWorld ''ethereum'' ''0xabc'' ethereumChain) = Some (Num 1)"
  by (simp add: rpcNativeBalance_def getEvmNativeBalance_def jsonRpcRequest_def
      covalentNativeWorld_def rpcPriceWorld_def deadWorld_def ethereumChain_def
      BigInt_one_ether_hex)

lemma price_rpcPriceWorld:
  "snd (getNativePriceUsd (rpcPriceWorld hex p) c) = Some (Num p)"
  by (simp add: getNativePriceUsd_def rpcPriceWorld_def deadWorld_def)

lemma price_covalentNativeWorld:
  "snd (getNativePriceUsd covalentNativeWorld c) = Some (Num 2000)"
  by (simp add: getNativePriceUsd_def covalentNativeWorld_def rpcPriceWorld_def deadWorld_def)

lemma price_rpcMoralisWorld: "snd (getNativePriceUsd rpcMoralisWorld c) = None"
  by (simp add: getNativePriceUsd_def rpcMoralisWorld_def moralisNativeWorld_def deadWorld_def)

lemma price_priceMoralisWorld: "snd (getNativePriceUsd priceMoralisWorld c) = Some (Num 2000)"
  by (simp add: getNativePriceUsd_def priceMoralisWorld_def moralisNativeWorld_def
      deadWorld_def)


lemma select_rpcMoralisWorld:
  "snd (selectTokenData moralisKey rpcMoralisWorld ''ethereum'' ''0xabc'' ethereumChain) =
     (Some (moralisPortfolio (Some [moralisEther 2000])),
      Some \<lparr>native_balance = Num 1, native_usd = 2000\<rparr>)"
  by (simp add: selectTokenData_def moralisKey_def truthyStr_def getMoralisBalances_def
      rpcMoralisWorld_def moralisNativeWorld_def deadWorld_def moralisNativeOf_def
      moralisPortfolio_ether)

lemma select_priceMoralisWorld:
  "snd (selectTokenData moralisKey priceMoralisWorld ''ethereum'' ''0xabc'' ethereumChain) =
     (Some (moralisPortfolio (Some [moralisEther 1900])),
      Some \<lparr>native_balance = Num 1, native_usd = 1900\<rparr>)"
  by (simp add: selectTokenData_def moralisKey_def truthyStr_def getMoralisBalances_def
      priceMoralisWorld_def moralisNativeWorld_def deadWorld_def moralisNativeOf_def
      moralisPortfolio_ether)

lemma select_covalentNativeWorld:
  "snd (selectTokenData covalentKey covalentNativeWorld ''ethereum'' ''0xabc'' ethereumChain) =
     (covalentPortfolio (Some [covalentEther]), None)"
  by (simp add: selectTokenData_def covalentKey_def truthyStr_def getCovalentBalances_def
      covalentNativeWorld_def rpcPriceWorld_def deadWorld_def)




subsection \<open>The filters of the token adapters\<close>


lemma covalentKeep_filter_quote:
  "filter covalentKeep (filter (\<lambda>i. cov_quote i \<noteq> Some 0) items) = filter covalentKeep items"
  by (induction items) (auto simp: covalentKeep_def)


lemma moralisLoop_native_apart:
  assumes "tokens st = tokens st'" "portfolioValueUsd st = portfolioValueUsd st'"
  shows "tokens (moralisLoop items st) =
           tokens (moralisLoop (filter (\<lambda>i. \<not> truthyBool (mor_native_token i)) items) st') \<and>
         portfolioValueUsd (moralisLoop items st) =
           portfolioValueUsd
             (moralisLoop (filter (\<lambda>i. \<not> truthyBool (mor_native_token i)) items) st')"
  using assms
proof (induction items arbitrary: st st')
  case Nil
  then show ?case by simp
next
  case (Cons item rest)
  show ?case
  proof (cases "mor_balance item = Some ''0''")
    case True
    then show ?thesis using Cons.IH [OF Cons.prems] by simp
  next
    case False
    show ?thesis
    proof (cases "truthyBool (mor_native_token item)")
      case True
      then show ?thesis using False Cons.IH [of _ st'] Cons.prems by (simp add: Let_def)
    next
      case nn: False
      then show ?thesis using False Cons.IH Cons.prems by (simp add: Let_def)
    qed
  qed
qed

text \<open>
  The Moralis adapter keeps every item it reads as native out of the token list and out
  of the portfolio total: both are what they would be without those items.
\<close>

lemma moralis_native_never_listed:
  "tokens (moralisPortfolio (Some items)) =
     tokens (moralisPortfolio (Some (filter (\<lambda>i. \<not> truthyBool (mor_native_token i)) items))) \<and>
   portfolioValueUsd (moralisPortfolio (Some items)) =
     portfolioValueUsd
       (moralisPortfolio (Some (filter (\<lambda>i. \<not> truthyBool (mor_native_token i)) items)))"
  using moralisLoop_native_apart [of _ _ items] by (simp add: moralisPortfolio_def)

text \<open>
  With the Moralis key, the same ether that Covalent folds into the token list (C2 below)
  is kept apart: the list is empty and the total is zero.
\<close>

lemma moralis_native_kept_apart:
  "balancesOf (snd (handleRequest moralisKey rpcMoralisWorld
     (balancesRequest ''ethereum'' ''0xabc''))) =
   Some \<lparr>b_network = ''ethereum'', b_address = ''0xabc'',
         nativeBalance = Some (Num 1), b_nativeSymbol = Some ''ETH'',
         nativeValueUsd = Some (Num 2000),
         tokenBalances = Some [],
         tokenPortfolioValueUsd = Some 0\<rparr>"
  by (simp add:
      balances_response [OF valid_ethereum_balances balancesRequest_sel(2) CHAIN_INFO_ethereum]
      balancesOf_def balancesRoute_body rpc_rpcMoralisWorld select_rpcMoralisWorld
      price_rpcMoralisWorld moralisPortfolio_ether mergeBalances_def isNaN_def
      ethereumChain_sel)

lemma zero_balance_dropped_example:
  "map_option tokens (covalentPortfolio
      (Some [covalentHolding ''0'' 3 5, covalentHolding ''150000'' 3 10])) =
     map_option tokens (covalentPortfolio (Some [covalentHolding ''150000'' 3 10])) \<and>
   tokens (moralisPortfolio (Some [moralisHolding ''0'' 3 5, moralisHolding ''150000'' 3 10])) =
     tokens (moralisPortfolio (Some [moralisHolding ''150000'' 3 10]))"
  by (simp add: covalentPortfolio_def covalentKeep_def covalentHolding_def moralisPortfolio_def
      moralisHolding_def)

lemma unpriced_token_dropped_example:
  "covalentPortfolio (Some [covalentHolding ''150000'' 3 0]) =
     Some \<lparr>tokens = [], portfolioValueUsd = 0, nativeFromMoralis = None\<rparr>"
  by (simp add: covalentPortfolio_def covalentKeep_def covalentHolding_def)

subsection \<open>C1: selection of the token-data provider\<close>

text \<open>
  C1, as amended. For every balances request with a valid network and address, at most
  one token-data provider is queried: Moralis when its key is configured, on Solana and
  on the EVM networks alike; otherwise Covalent when its key is configured and the
  network is not Solana; otherwise none, and then the response has no token data. The
  token-provider requests of a run are exactly this list, so the two providers are never
  both queried in one request.
\<close>

theorem C1_provider_selection:
  assumes "validQuery req net addr" and "pathname req = ''/api/balances''"
  shows "tokenProviderCalls (fst (handleRequest e w req)) =
           (if truthyStr (MORALIS_API_KEY e) then [MoralisTokens]
            else if net \<noteq> ''solana'' \<and> truthyStr (COVALENT_API_KEY e) then [CovalentBalances]
            else []) \<and>
         (\<not> truthyStr (MORALIS_API_KEY e) \<and>
          (net = ''solana'' \<or> \<not> truthyStr (COVALENT_API_KEY e)) \<longrightarrow>
            map_option tokenBalances (balancesOf (snd (handleRequest e w req))) = Some None)"
proof -
  from checkParams_valid [OF assms(1)] obtain ch
    where ci: "CHAIN_INFO net = Some ch" and ch: "checkParams req = Some (net, addr, ch)"
    by blast
  from assms(1) have g: "req_method req = ''GET''" by (simp add: validQuery_def)
  have "fst (handleRequest e w req) = fst (balancesRoute e w net addr ch)"
    using handle_balances [OF ch g assms(2)] by simp
  then have calls: "tokenProviderCalls (fst (handleRequest e w req)) =
      (if truthyStr (MORALIS_API_KEY e) then [MoralisTokens]
       else if net \<noteq> ''solana'' \<and> truthyStr (COVALENT_API_KEY e) then [CovalentBalances]
       else [])"
    using rpcNativeBalance_calls [of w net addr ch]
    by (simp add: balancesRoute_calls selectTokenData_calls tokenProviderCalls_def)
  have none: "map_option tokenBalances (balancesOf (snd (handleRequest e w req))) = Some None"
    if "\<not> truthyStr (MORALIS_API_KEY e)"
      and "net = ''solana'' \<or> \<not> truthyStr (COVALENT_API_KEY e)"
    using selectTokenData_unselected [OF that, of w addr ch]
    by (simp add: balances_response [OF assms ci] balancesOf_def balancesRoute_body
        merge_tokenBalances)
  from calls none show ?thesis by blast
qed

text \<open>Only the Covalent key is configured: a Polygon request queries Covalent alone.\<close>

theorem C1_provider_selection_witness:
  "tokenProviderCalls
     (fst (handleRequest covalentKey deadWorld (balancesRequest ''polygon'' ''0xabc''))) =
   [CovalentBalances]"
proof -
  have v: "validQuery (balancesRequest ''polygon'' ''0xabc'') ''polygon'' ''0xabc''"
    by (simp add: valid_balancesRequest recognized_def)
  show ?thesis
    using C1_provider_selection [OF v balancesRequest_sel(2), of covalentKey deadWorld]
    by (simp add: covalentKey_def truthyStr_def)
qed

text \<open>
  C1 as stated has exactly one provider queried on every valid request. With no key
  configured a valid Ethereum request queries none.
\<close>

theorem C1_no_provider_queried:
  "validQuery (balancesRequest ''ethereum'' ''0xabc'') ''ethereum'' ''0xabc'' \<and>
   tokenProviderCalls
     (fst (handleRequest noKeys deadWorld (balancesRequest ''ethereum'' ''0xabc''))) = []"
proof -
  have "tokenProviderCalls
      (fst (handleRequest noKeys deadWorld (balancesRequest ''ethereum'' ''0xabc''))) = []"
    using rpcNativeBalance_calls [of deadWorld "''ethereum''" "''0xabc''" ethereumChain]
    by (simp add: handle_balances
        [OF checkParams_chain [OF valid_ethereum_balances CHAIN_INFO_ethereum]
          balancesRequest_sel]
        balancesRoute_calls selectTokenData_calls noKeys_def truthyStr_def
        tokenProviderCalls_def)
  then show ?thesis using valid_ethereum_balances by simp
qed

subsection \<open>C2: the native token in the provider's list\<close>

text \<open>
  C2 fails for the Covalent adapter, which never reads \<^verbatim>\<open>native_token\<close>. (The
  Moralis adapter keeps a native item out of the list and the total,
  \<open>moralis_native_never_listed\<close>, and surfaces it unless its raw balance is
  \<^verbatim>\<open>'0'\<close>.) Run evaluated: only the
  Covalent key is configured, the RPC reports one ether, the price is 2000 USD, and
  Covalent lists that ether inline, flagged as the native token. The response carries the
  ether in \<open>tokenBalances\<close>, and its 2000 USD both in \<open>nativeValueUsd\<close> and in
  \<open>tokenPortfolioValueUsd\<close>; nothing is surfaced separately.
\<close>

theorem C2_covalent_native_counted_twice:
  "balancesOf (snd (handleRequest covalentKey covalentNativeWorld
     (balancesRequest ''ethereum'' ''0xabc''))) =
   Some \<lparr>b_network = ''ethereum'', b_address = ''0xabc'',
         nativeBalance = Some (Num 1), b_nativeSymbol = Some ''ETH'',
         nativeValueUsd = Some (Num 2000),
         tokenBalances = Some [\<lparr>contractName = Some ''Ether'', symbol = Some ''ETH'',
                                 balance = Num 1, decimals = 18, quote = 2000,
                                 nativeToken = None\<rparr>],
         tokenPortfolioValueUsd = Some 2000\<rparr>"
  by (simp add:
      balances_response [OF valid_ethereum_balances balancesRequest_sel(2) CHAIN_INFO_ethereum]
      balancesOf_def balancesRoute_body rpc_covalentNativeWorld select_covalentNativeWorld
      price_covalentNativeWorld covalentPortfolio_ether mergeBalances_def isNaN_def
      ethereumChain_sel)

subsection \<open>C3: the provider's native balance as fallback\<close>



subsection \<open>C4: the USD value of the native balance\<close>

text \<open>
  C4, as amended. In every balances response \<open>nativeValueUsd\<close> is the product of the
  RPC native balance and the price when both are available; otherwise it is the USD
  value of the native entry the selected provider surfaced, when there is one; and
  \<^verbatim>\<open>null\<close> only when there is none.
\<close>

theorem C4_native_value:
  assumes "validQuery req net addr" and "pathname req = ''/api/balances''"
    and "CHAIN_INFO net = Some ch"
  shows "map_option nativeValueUsd (balancesOf (snd (handleRequest e w req))) =
           Some (case snd (rpcNativeBalance w net addr ch) of
                   None \<Rightarrow>
                     map_option (\<lambda>n. Num (native_usd n)) (snd (snd (selectTokenData e w net addr ch)))
                 | Some b \<Rightarrow>
                     (case snd (getNativePriceUsd w (coinGeckoId ch)) of
                        None \<Rightarrow>
                          map_option (\<lambda>n. Num (native_usd n))
                            (snd (snd (selectTokenData e w net addr ch)))
                      | Some p \<Rightarrow> Some (js_mul b p)))"
  by (simp add: balances_response [OF assms] balancesOf_def balancesRoute_body
      merge_nativeValueUsd)

text \<open>
  No provider key, a balance of half an ether and a price of 2000 USD: the value is
  1000 USD.
\<close>

theorem C4_native_value_witness:
  "map_option nativeValueUsd
     (balancesOf (snd (handleRequest noKeys (rpcPriceWorld ''0x6f05b59d3b20000'' 2000)
        (balancesRequest ''ethereum'' ''0xabc'')))) = Some (Some (Num 1000))"
  using C4_native_value [OF valid_ethereum_balances balancesRequest_sel(2) CHAIN_INFO_ethereum,
      of noKeys "rpcPriceWorld ''0x6f05b59d3b20000'' 2000"]
  by (simp add: rpc_rpcPriceWorld_half price_rpcPriceWorld)

text \<open>
  C4 as stated has \<open>nativeValueUsd\<close> non-null only when a native balance and a price
  are available, and then equal to their product. In the first run the RPC answers, the
  price call fails and Moralis lists the ether as worth 2000 USD: the field is 2000
  without a price. In the second the RPC fails, the price is 2000 USD and Moralis lists
  one ether as worth 1900 USD: the response has the native balance 1, and the field is
  1900, neither \<^verbatim>\<open>null\<close> nor the product.
\<close>

theorem C4_value_without_price:
  "snd (getNativePriceUsd rpcMoralisWorld (coinGeckoId ethereumChain)) = None \<and>
   map_option nativeValueUsd
     (balancesOf (snd (handleRequest moralisKey rpcMoralisWorld
        (balancesRequest ''ethereum'' ''0xabc'')))) = Some (Some (Num 2000)) \<and>
   snd (rpcNativeBalance priceMoralisWorld ''ethereum'' ''0xabc'' ethereumChain) = None \<and>
   snd (getNativePriceUsd priceMoralisWorld (coinGeckoId ethereumChain)) = Some (Num 2000) \<and>
   map_option nativeBalance
     (balancesOf (snd (handleRequest moralisKey priceMoralisWorld
        (balancesRequest ''ethereum'' ''0xabc'')))) = Some (Some (Num 1)) \<and>
   map_option nativeValueUsd
     (balancesOf (snd (handleRequest moralisKey priceMoralisWorld
        (balancesRequest ''ethereum'' ''0xabc'')))) = Some (Some (Num 1900))"
  by (simp add: price_rpcMoralisWorld price_priceMoralisWorld rpc_priceMoralisWorld
      balances_response [OF valid_ethereum_balances balancesRequest_sel(2) CHAIN_INFO_ethereum]
      balancesOf_def balancesRoute_body merge_nativeValueUsd merge_nativeBalance
      rpc_rpcMoralisWorld select_rpcMoralisWorld select_priceMoralisWorld)

subsection \<open>C5: validation of the parameters\<close>

text \<open>
  C5 fails on the code. The guard tests \<^verbatim>\<open>!CHAIN_INFO[network]\<close>, and the lookup also
  finds inherited properties: \<^verbatim>\<open>constructor\<close> is not one of the five recognized
  identifiers, yet on both routes the request passes the guard and is answered 200, not
  400. The rest of C5 holds (\<open>guard_rejects\<close>).
\<close>

theorem C5_inherited_key_accepted:
  "\<not> recognized ''constructor'' \<and>
   snd (handleRequest noKeys deadWorld (balancesRequest ''constructor'' ''0xabc'')) =
     \<lparr>statusCode = 200,
      body = BalancesBody
        \<lparr>b_network = ''constructor'', b_address = ''0xabc'', nativeBalance = None,
         b_nativeSymbol = None, nativeValueUsd = None, tokenBalances = None,
         tokenPortfolioValueUsd = None\<rparr>\<rparr> \<and>
   snd (handleRequest noKeys deadWorld (transactionsRequest ''constructor'' ''0xabc'')) =
     \<lparr>statusCode = 200,
      body = TransactionsBody
        \<lparr>t_network = ''constructor'', t_address = ''0xabc'', transactions = None\<rparr>\<rparr>"
  by (simp add: recognized_def handle_balances [OF checkParams_constructor(1) balancesRequest_sel]
      handle_transactions [OF checkParams_constructor(2) transactionsRequest_sel]
      balancesRoute_body mergeBalances_def rpcNativeBalance_def getEvmNativeBalance_def
      jsonRpcRequest_def selectTokenData_def getNativePriceUsd_def transactionsRoute_def
      noKeys_def truthyStr_def deadWorld_def inheritedMember_def)

subsection \<open>C6: no provider key\<close>

text \<open>
  C6. For every valid request with neither provider key configured, the balances
  response has \<open>tokenBalances\<close> and \<open>tokenPortfolioValueUsd\<close> equal to \<^verbatim>\<open>null\<close>, and
  the transactions response for an EVM network has \<open>transactions\<close> equal to
  \<^verbatim>\<open>null\<close>.
\<close>

theorem C6_no_provider_keys:
  assumes "validQuery req net addr"
    and "\<not> truthyStr (MORALIS_API_KEY e)" and "\<not> truthyStr (COVALENT_API_KEY e)"
  shows "(pathname req = ''/api/balances'' \<longrightarrow>
            map_option tokenBalances (balancesOf (snd (handleRequest e w req))) = Some None \<and>
            map_option tokenPortfolioValueUsd (balancesOf (snd (handleRequest e w req))) =
              Some None) \<and>
         (pathname req = ''/api/transactions'' \<and> net \<noteq> ''solana'' \<longrightarrow>
            map_option transactions (transactionsOf (snd (handleRequest e w req))) = Some None)"
proof -
  from checkParams_valid [OF assms(1)] obtain ch where ch: "CHAIN_INFO net = Some ch" by blast
  have s: "snd (selectTokenData e w net addr ch) = (None, None)"
    using assms(2,3) by (simp add: selectTokenData_unselected)
  have b: "pathname req = ''/api/balances'' \<Longrightarrow>
      map_option tokenBalances (balancesOf (snd (handleRequest e w req))) = Some None \<and>
      map_option tokenPortfolioValueUsd (balancesOf (snd (handleRequest e w req))) = Some None"
    using s
    by (simp add: balances_response [OF assms(1) _ ch] balancesOf_def balancesRoute_body
        merge_tokenBalances merge_tokenPortfolioValueUsd)
  have t: "pathname req = ''/api/transactions'' \<Longrightarrow> net \<noteq> ''solana'' \<Longrightarrow>
      map_option transactions (transactionsOf (snd (handleRequest e w req))) = Some None"
    using assms(2,3)
    by (simp add: transactions_response [OF assms(1) _ ch] transactionsOf_def
        transactionsRoute_def)
  from b t show ?thesis by blast
qed

text \<open>
  No key: an Ethereum balances request with a working RPC and price API, and an Ethereum
  transactions request.
\<close>

theorem C6_no_provider_keys_witness:
  "map_option tokenBalances
     (balancesOf (snd (handleRequest noKeys (rpcPriceWorld ''0x6f05b59d3b20000'' 2000)
        (balancesRequest ''ethereum'' ''0xabc'')))) = Some None \<and>
   map_option tokenPortfolioValueUsd
     (balancesOf (snd (handleRequest noKeys (rpcPriceWorld ''0x6f05b59d3b20000'' 2000)
        (balancesRequest ''ethereum'' ''0xabc'')))) = Some None \<and>
   map_option transactions
     (transactionsOf (snd (handleRequest noKeys deadWorld
        (transactionsRequest ''ethereum'' ''0xabc'')))) = Some None"
proof -
  have k: "\<not> truthyStr (MORALIS_API_KEY noKeys)" "\<not> truthyStr (COVALENT_API_KEY noKeys)"
    by (simp_all add: noKeys_def truthyStr_def)
  show ?thesis
    using C6_no_provider_keys [OF valid_ethereum_balances k,
        of "rpcPriceWorld ''0x6f05b59d3b20000'' 2000"]
      C6_no_provider_keys [OF valid_ethereum_transactions k, of deadWorld]
    by (simp add: balancesRequest_sel transactionsRequest_sel)
qed

subsection \<open>C7: upstream failures degrade the payload\<close>




subsection \<open>C8: entries with a zero raw balance\<close>



subsection \<open>C9: unit conversion\<close>

text \<open>
  C9 is a statement about binary64 arithmetic: the server computes
  \<^verbatim>\<open>Number(wei) / 1e18\<close>, \<^verbatim>\<open>lamports / 1e9\<close> and
  \<^verbatim>\<open>Number(balanceRaw) / 10 ** decimals\<close>, each rounded, and numbers are exact here. It
  is not stated. The three amounts the specification lists are exact in binary64 as
  well (\<open>10^18\<close>, \<open>10^9\<close>, \<open>150000\<close>, \<open>10^3\<close> and the three quotients are binary64
  values), so the evaluations below hold of the code too: \<open>1000000000000000000\<close> wei
  (the RPC writes it \<^verbatim>\<open>0xde0b6b3a7640000\<close>) is 1, \<open>1000000000\<close> lamports is 1, and the
  raw balance \<^verbatim>\<open>"150000"\<close> with 3 decimals is 150.
\<close>

lemma unit_conversion_amounts:
  "snd (getEvmNativeBalance (rpcPriceWorld ''0xde0b6b3a7640000'' 2000)
     (Some ''https://cloudflare-eth.com'') ''0xabc'') = Some (Num 1) \<and>
   snd (getSolanaBalance (solanaWorld 1000000000)
     (Some ''https://api.mainnet-beta.solana.com'') ''abc'') = Some (Num 1) \<and>
   map_option balance (covalentToken (covalentHolding ''150000'' 3 10)) = Some (Num 150) \<and>
   map balance (tokens (moralisPortfolio (Some [moralisHolding ''150000'' 3 10]))) = [Num 150]"
  by (simp add: getEvmNativeBalance_def jsonRpcRequest_def getSolanaBalance_def
      covalentToken_def orStr_def pow10_def moralisPortfolio_def moralisBalance_def Let_def
      rpcPriceWorld_def solanaWorld_def deadWorld_def BigInt_one_ether_hex
      BigInt_150000 covalentHolding_def moralisHolding_def truthyBool_def)

subsection \<open>C10: entries with a zero quote\<close>

text \<open>
  C10. In the Covalent adapter every entry whose USD quote is the number 0 is excluded
  from the returned token list, whatever its raw balance: what the adapter returns for a
  document is what it returns for the document without these entries.
\<close>

theorem C10_zero_quote_excluded:
  "covalentPortfolio (Some items) =
     covalentPortfolio (Some (filter (\<lambda>i. cov_quote i \<noteq> Some 0) items))"
  by (simp add: covalentPortfolio_def covalentKeep_filter_quote del: filter_filter)

end
